theory Spec2Isabelle
  imports Complex_Main
begin

section \<open>Linear molecular chains: data model\<close>

text \<open>
  The notebook defines two classes with the same six attributes,
  \<^verbatim>\<open>SymbolicMolecularChain\<close> (SymPy values) and \<^verbatim>\<open>MolecularChainNumeric\<close>
  (NumPy values):
  \<^verbatim>\<open>
    def __init__(self, structure, mass_dict, spring_dict):
        self.structure = structure
        self.mass_dict = mass_dict
        self.spring_dict = spring_dict
        self.atoms, self.bonds = self._parse_structure(structure)
        self.N = len(self.atoms)
  \<close>
  A Python string is a sequence of characters \<open>'c\<close>; \<^verbatim>\<open>structure[i]\<close> is the
  one-character string \<open>[structure ! i]\<close>, and both dictionaries are keyed by strings.
  Python's \<^verbatim>\<open>str.isalpha\<close> is a parameter \<open>isalpha\<close> of the model, so that nothing
  depends on which characters Unicode calls letters; \<open>isalpha_ascii\<close> below is its
  restriction to ASCII, used for the concrete chains.
  Masses and spring constants range over a field \<open>'a\<close>: SymPy's exact expressions
  and, for the numeric class, NumPy's floats read as exact numbers.
\<close>

record ('c, 'a) chain =
  "structure" :: "'c list"
  mass_dict :: "'c list \<rightharpoonup> 'a"
  spring_dict :: "'c list \<rightharpoonup> 'a"
  atoms :: "'c list list"
  bonds :: "'c list list"
  N :: nat

definition isalpha_ascii :: "char \<Rightarrow> bool" where
  "isalpha_ascii c =
     (let n = (of_char c :: nat) in (65 \<le> n \<and> n \<le> 90) \<or> (97 \<le> n \<and> n \<le> 122))"

subsection \<open>The parser\<close>

text \<open>
  \<^verbatim>\<open>
    def _parse_structure(self, structure):
        atoms, bonds = [], []
        i = 0
        while i < len(structure):
            if structure[i].isalpha():
                atoms.append(structure[i])
                if i + 1 < len(structure) and structure[i + 1] in self.spring_dict:
                    bonds.append(structure[i + 1])
                    i += 2
                else:
                    i += 1
            else:
                i += 1
        return atoms, bonds
  \<close>
  The while loop is a recursion on the index \<open>i\<close> with the two lists as
  accumulators; of \<open>self\<close> it reads \<open>spring_dict\<close> only.
\<close>

function Sym_parse_loop ::
  "('c \<Rightarrow> bool) \<Rightarrow> ('c list \<rightharpoonup> 'a) \<Rightarrow> 'c list \<Rightarrow> nat \<Rightarrow> 'c list list \<Rightarrow> 'c list list
     \<Rightarrow> 'c list list \<times> 'c list list" where
  "Sym_parse_loop isalpha sd s i ats bds =
     (if i < length s then
        if isalpha (s ! i) then
          (if i + 1 < length s \<and> sd [s ! (i + 1)] \<noteq> None
           then Sym_parse_loop isalpha sd s (i + 2) (ats @ [[s ! i]]) (bds @ [[s ! (i + 1)]])
           else Sym_parse_loop isalpha sd s (i + 1) (ats @ [[s ! i]]) bds)
        else Sym_parse_loop isalpha sd s (i + 1) ats bds
      else (ats, bds))"
  by pat_completeness auto
termination
  by (relation "measure (\<lambda>(isalpha, sd, s, i, ats, bds). length s - i)") auto

declare Sym_parse_loop.simps [simp del]

definition Sym_parse_structure ::
  "('c \<Rightarrow> bool) \<Rightarrow> ('c list \<rightharpoonup> 'a) \<Rightarrow> 'c list \<Rightarrow> 'c list list \<times> 'c list list" where
  "Sym_parse_structure isalpha sd s = Sym_parse_loop isalpha sd s 0 [] []"

definition SymbolicMolecularChain ::
  "('c \<Rightarrow> bool) \<Rightarrow> 'c list \<Rightarrow> ('c list \<rightharpoonup> 'a) \<Rightarrow> ('c list \<rightharpoonup> 'a) \<Rightarrow> ('c, 'a) chain" where
  "SymbolicMolecularChain isalpha s md sd =
     (let (ats, bds) = Sym_parse_structure isalpha sd s
      in \<lparr>structure = s, mass_dict = md, spring_dict = sd,
          atoms = ats, bonds = bds, N = length ats\<rparr>)"

function Num_parse_loop ::
  "('c \<Rightarrow> bool) \<Rightarrow> ('c list \<rightharpoonup> 'a) \<Rightarrow> 'c list \<Rightarrow> nat \<Rightarrow> 'c list list \<Rightarrow> 'c list list
     \<Rightarrow> 'c list list \<times> 'c list list" where
  "Num_parse_loop isalpha sd s i ats bds =
     (if i < length s then
        if isalpha (s ! i) then
          (if i + 1 < length s \<and> sd [s ! (i + 1)] \<noteq> None
           then Num_parse_loop isalpha sd s (i + 2) (ats @ [[s ! i]]) (bds @ [[s ! (i + 1)]])
           else Num_parse_loop isalpha sd s (i + 1) (ats @ [[s ! i]]) bds)
        else Num_parse_loop isalpha sd s (i + 1) ats bds
      else (ats, bds))"
  by pat_completeness auto
termination
  by (relation "measure (\<lambda>(isalpha, sd, s, i, ats, bds). length s - i)") auto

declare Num_parse_loop.simps [simp del]

definition Num_parse_structure ::
  "('c \<Rightarrow> bool) \<Rightarrow> ('c list \<rightharpoonup> 'a) \<Rightarrow> 'c list \<Rightarrow> 'c list list \<times> 'c list list" where
  "Num_parse_structure isalpha sd s = Num_parse_loop isalpha sd s 0 [] []"

definition MolecularChainNumeric ::
  "('c \<Rightarrow> bool) \<Rightarrow> 'c list \<Rightarrow> ('c list \<rightharpoonup> 'a) \<Rightarrow> ('c list \<rightharpoonup> 'a) \<Rightarrow> ('c, 'a) chain" where
  "MolecularChainNumeric isalpha s md sd =
     (let (ats, bds) = Num_parse_structure isalpha sd s
      in \<lparr>structure = s, mass_dict = md, spring_dict = sd,
          atoms = ats, bonds = bds, N = length ats\<rparr>)"

text \<open>
  The scan as the specification words it, by recursion on the rest of the string:
  an alphabetic character starts an atom; a recognized bond symbol right after it
  is consumed with it; any other character is skipped.
\<close>

fun scan_spec :: "('c \<Rightarrow> bool) \<Rightarrow> ('c list \<rightharpoonup> 'a) \<Rightarrow> 'c list \<Rightarrow> 'c list list \<times> 'c list list" where
  "scan_spec isalpha sd [] = ([], [])"
| "scan_spec isalpha sd [c] = (if isalpha c then ([[c]], []) else ([], []))"
| "scan_spec isalpha sd (c # b # rest) =
     (if isalpha c then
        (if sd [b] \<noteq> None
         then (let (ats, bds) = scan_spec isalpha sd rest in ([c] # ats, [b] # bds))
         else (let (ats, bds) = scan_spec isalpha sd (b # rest) in ([c] # ats, bds)))
      else scan_spec isalpha sd (b # rest))"

text \<open>
  The input format of the external interface: atom symbols (alphabetic characters)
  with exactly one recognized bond character between consecutive atoms, the first
  and the last character being atoms.
\<close>

fun valid_structure :: "('c \<Rightarrow> bool) \<Rightarrow> ('c list \<rightharpoonup> 'a) \<Rightarrow> 'c list \<Rightarrow> bool" where
  "valid_structure isalpha sd [] = False"
| "valid_structure isalpha sd [a] = isalpha a"
| "valid_structure isalpha sd (a # b # rest) =
     (isalpha a \<and> sd [b] \<noteq> None \<and> valid_structure isalpha sd rest)"

subsection \<open>Python's failures as values\<close>

text \<open>
  A missing dictionary key raises \<^verbatim>\<open>KeyError(key)\<close>, a list index out of range
  raises \<^verbatim>\<open>IndexError\<close>. A division by a zero mass raises \<^verbatim>\<open>ZeroDivisionError\<close> on
  Python numbers and yields \<^verbatim>\<open>zoo\<close>, \<^verbatim>\<open>inf\<close> or \<^verbatim>\<open>nan\<close> on SymPy and NumPy
  values; none of these is an element of a field, so the model stops there as
  Python numbers do, and every matrix it returns has field entries only.
\<close>

datatype 'k error = KeyError 'k | IndexError | ZeroDivisionError

definition bind_res :: "'e + 'x \<Rightarrow> ('x \<Rightarrow> 'e + 'y) \<Rightarrow> 'e + 'y" where
  "bind_res r f = (case r of Inl e \<Rightarrow> Inl e | Inr x \<Rightarrow> f x)"

text \<open>The comprehension \<^verbatim>\<open>[d[x] for x in xs]\<close>: the first missing key raises.\<close>

fun lookup_all :: "('k \<rightharpoonup> 'v) \<Rightarrow> 'k list \<Rightarrow> 'k error + 'v list" where
  "lookup_all d [] = Inr []"
| "lookup_all d (x # xs) =
     (case d x of
        None \<Rightarrow> Inl (KeyError x)
      | Some v \<Rightarrow> bind_res (lookup_all d xs) (\<lambda>vs. Inr (v # vs)))"

definition getitem :: "'v list \<Rightarrow> nat \<Rightarrow> 'k error + 'v" where
  "getitem xs i = (if i < length xs then Inr (xs ! i) else Inl IndexError)"

definition pdiv :: "'a::field \<Rightarrow> 'a \<Rightarrow> 'k error + 'a" where
  "pdiv x y = (if y = 0 then Inl ZeroDivisionError else Inr (x / y))"

text \<open>The expressions \<^verbatim>\<open>k[j] / m[i]\<close> and \<^verbatim>\<open>-k[j] / m[i]\<close>, evaluated left to right.\<close>

definition quot :: "'a::field list \<Rightarrow> 'a list \<Rightarrow> nat \<Rightarrow> nat \<Rightarrow> 'k error + 'a" where
  "quot k m j i =
     bind_res (getitem k j) (\<lambda>kj. bind_res (getitem m i) (\<lambda>mi. pdiv kj mi))"

definition neg_quot :: "'a::field list \<Rightarrow> 'a list \<Rightarrow> nat \<Rightarrow> nat \<Rightarrow> 'k error + 'a" where
  "neg_quot k m j i =
     bind_res (getitem k j) (\<lambda>kj. bind_res (getitem m i) (\<lambda>mi. pdiv (- kj) mi))"

subsection \<open>Matrices\<close>

text \<open>
  A matrix is the list of its rows; \<^verbatim>\<open>A[i, j]\<close> is \<open>A ! i ! j\<close>. \<^verbatim>\<open>sp.zeros(N)\<close> and
  \<^verbatim>\<open>np.zeros((N, N))\<close> are the N-by-N zero matrix, \<^verbatim>\<open>A[i, j] = v\<close> updates one entry.
\<close>

definition zeros :: "nat \<Rightarrow> 'a::zero list list" where
  "zeros n = replicate n (replicate n 0)"

definition setitem :: "'a list list \<Rightarrow> nat \<Rightarrow> nat \<Rightarrow> 'a \<Rightarrow> 'a list list" where
  "setitem A i j v = A[i := (A ! i)[j := v]]"

subsection \<open>The matrix builder\<close>

text \<open>
  \<^verbatim>\<open>
    def build_matrix(self):
        m = [self.mass_dict[a] for a in self.atoms]
        k = [self.spring_dict[b] for b in self.bonds]

        A = sp.zeros(self.N)
        for i in range(self.N):
            if i > 0:
                A[i, i - 1] = -k[i - 1] / m[i]
                A[i, i] += k[i - 1] / m[i]
            if i < self.N - 1:
                A[i, i + 1] = -k[i] / m[i]
                A[i, i] += k[i] / m[i]
        return A
  \<close>
  The numeric class reads the same with \<^verbatim>\<open>np.array([...])\<close> and
  \<^verbatim>\<open>np.zeros((self.N, self.N))\<close>. One iteration of the loop is \<open>Sym_build_row\<close>
  (\<open>Num_build_row\<close> for the numeric class); the loop runs over \<^verbatim>\<open>range(self.N)\<close>,
  the list \<open>[0..<N]\<close>, and stops at the first failure.
\<close>

definition Sym_build_row ::
  "'a::field list \<Rightarrow> 'a list \<Rightarrow> nat \<Rightarrow> nat \<Rightarrow> 'a list list \<Rightarrow> 'k error + 'a list list" where
  "Sym_build_row m k n i A =
     bind_res
       (if 0 < i then
          bind_res (neg_quot k m (i - 1) i) (\<lambda>q.
          let A1 = setitem A i (i - 1) q in
          bind_res (quot k m (i - 1) i) (\<lambda>q'.
          Inr (setitem A1 i i (A1 ! i ! i + q'))))
        else Inr A)
       (\<lambda>A2.
        if int i < int n - 1 then
          bind_res (neg_quot k m i i) (\<lambda>q.
          let A3 = setitem A2 i (i + 1) q in
          bind_res (quot k m i i) (\<lambda>q'.
          Inr (setitem A3 i i (A3 ! i ! i + q'))))
        else Inr A2)"

fun Sym_build_loop ::
  "'a::field list \<Rightarrow> 'a list \<Rightarrow> nat \<Rightarrow> nat list \<Rightarrow> 'a list list \<Rightarrow> 'k error + 'a list list" where
  "Sym_build_loop m k n [] A = Inr A"
| "Sym_build_loop m k n (i # is) A =
     (case Sym_build_row m k n i A of
        Inl e \<Rightarrow> Inl e
      | Inr A' \<Rightarrow> Sym_build_loop m k n is A')"

definition Sym_build_matrix :: "('c, 'a::field) chain \<Rightarrow> 'c list error + 'a list list" where
  "Sym_build_matrix self =
     bind_res (lookup_all (mass_dict self) (atoms self)) (\<lambda>m.
     bind_res (lookup_all (spring_dict self) (bonds self)) (\<lambda>k.
     Sym_build_loop m k (N self) [0..<N self] (zeros (N self))))"

definition Num_build_row ::
  "'a::field list \<Rightarrow> 'a list \<Rightarrow> nat \<Rightarrow> nat \<Rightarrow> 'a list list \<Rightarrow> 'k error + 'a list list" where
  "Num_build_row m k n i A =
     bind_res
       (if 0 < i then
          bind_res (neg_quot k m (i - 1) i) (\<lambda>q.
          let A1 = setitem A i (i - 1) q in
          bind_res (quot k m (i - 1) i) (\<lambda>q'.
          Inr (setitem A1 i i (A1 ! i ! i + q'))))
        else Inr A)
       (\<lambda>A2.
        if int i < int n - 1 then
          bind_res (neg_quot k m i i) (\<lambda>q.
          let A3 = setitem A2 i (i + 1) q in
          bind_res (quot k m i i) (\<lambda>q'.
          Inr (setitem A3 i i (A3 ! i ! i + q'))))
        else Inr A2)"

fun Num_build_loop ::
  "'a::field list \<Rightarrow> 'a list \<Rightarrow> nat \<Rightarrow> nat list \<Rightarrow> 'a list list \<Rightarrow> 'k error + 'a list list" where
  "Num_build_loop m k n [] A = Inr A"
| "Num_build_loop m k n (i # is) A =
     (case Num_build_row m k n i A of
        Inl e \<Rightarrow> Inl e
      | Inr A' \<Rightarrow> Num_build_loop m k n is A')"

definition Num_build_matrix :: "('c, 'a::field) chain \<Rightarrow> 'c list error + 'a list list" where
  "Num_build_matrix self =
     bind_res (lookup_all (mass_dict self) (atoms self)) (\<lambda>m.
     bind_res (lookup_all (spring_dict self) (bonds self)) (\<lambda>k.
     Num_build_loop m k (N self) [0..<N self] (zeros (N self))))"

text \<open>
  The matrix as the specification words it, for masses \<open>m\<close> and spring constants
  \<open>k\<close> (\<open>k ! i\<close> connecting atoms \<open>i\<close> and \<open>i + 1\<close>): the diagonal sums the
  normalized constants of both neighbours, the two entries beside it are their
  negatives, everything else is zero.
\<close>

definition entry_spec :: "'a::field list \<Rightarrow> 'a list \<Rightarrow> nat \<Rightarrow> nat \<Rightarrow> nat \<Rightarrow> 'a" where
  "entry_spec m k n i j =
     (if j = i then
        (if 0 < i then k ! (i - 1) / m ! i else 0) + (if i + 1 < n then k ! i / m ! i else 0)
      else if j + 1 = i then - k ! (i - 1) / m ! i
      else if j = i + 1 then - k ! i / m ! i
      else 0)"

definition matrix_spec :: "'a::field list \<Rightarrow> 'a list \<Rightarrow> nat \<Rightarrow> 'a list list" where
  "matrix_spec m k n = map (\<lambda>i. map (entry_spec m k n i) [0..<n]) [0..<n]"

definition mat_vec :: "'a::semiring_0 list list \<Rightarrow> 'a list \<Rightarrow> 'a list" where
  "mat_vec A v = map (\<lambda>row. sum_list (map2 (*) row v)) A"

subsection \<open>The eigensolvers\<close>

text \<open>
  \<^verbatim>\<open>
    def characteristic_polynomial(self):
        return (self.matrix - self.lambda_sym * sp.eye(self.N)).det()

    def eigenvalues(self):
        return sp.solve(self.characteristic_polynomial(), self.lambda_sym)
  \<close>
  with \<^verbatim>\<open>self.N = matrix.shape[0]\<close>. SymPy's \<^verbatim>\<open>det\<close> is the determinant, here by
  expansion along the first row; the polynomial in the formal unknown is the
  function of its value; \<^verbatim>\<open>sp.solve\<close> returns the roots.
\<close>

definition eye :: "nat \<Rightarrow> 'a::zero_neq_one list list" where
  "eye n = map (\<lambda>i. map (\<lambda>j. if i = j then 1 else 0) [0..<n]) [0..<n]"

definition scalar_mult :: "'a::times \<Rightarrow> 'a list list \<Rightarrow> 'a list list" where
  "scalar_mult c A = map (map ((*) c)) A"

definition mat_sub :: "'a::minus list list \<Rightarrow> 'a list list \<Rightarrow> 'a list list" where
  "mat_sub A B = map2 (map2 (-)) A B"

definition minor_cols :: "'a list list \<Rightarrow> nat \<Rightarrow> 'a list list" where
  "minor_cols rows j = map (\<lambda>r. take j r @ drop (Suc j) r) rows"

function det :: "'a::comm_ring_1 list list \<Rightarrow> 'a" where
  "det [] = 1"
| "det (r # rs) = (\<Sum>j\<leftarrow>[0..<length r]. (- 1) ^ j * r ! j * det (minor_cols rs j))"
  by pat_completeness auto
termination
  by (relation "measure length") (auto simp: minor_cols_def)

definition characteristic_polynomial :: "'a::field list list \<Rightarrow> 'a \<Rightarrow> 'a" where
  "characteristic_polynomial A lam = det (mat_sub A (scalar_mult lam (eye (length A))))"

definition eigenvalues :: "'a::field list list \<Rightarrow> 'a set" where
  "eigenvalues A = {lam. characteristic_polynomial A lam = 0}"

text \<open>
  \<^verbatim>\<open>
    def solve(self):
        eigenvals, eigenvecs = np.linalg.eigh(self.matrix)
  \<close>
  NumPy's \<^verbatim>\<open>eigh\<close> is the eigensolver for symmetric matrices: with its default
  \<^verbatim>\<open>UPLO='L'\<close> it reads the lower triangle of its argument only and decomposes the
  symmetric matrix with that triangle. \<open>eigh_operand\<close> is the matrix it decomposes.
\<close>

definition eigh_operand :: "'a list list \<Rightarrow> 'a list list" where
  "eigh_operand A =
     map (\<lambda>i. map (\<lambda>j. if j \<le> i then A ! i ! j else A ! j ! i) [0..<length A]) [0..<length A]"

section \<open>Lemmas: the parser\<close>

lemma Sym_parse_loop_scan:
  "i \<le> length s \<Longrightarrow>
   Sym_parse_loop isalpha sd s i ats bds =
     (ats @ fst (scan_spec isalpha sd (drop i s)), bds @ snd (scan_spec isalpha sd (drop i s)))"
proof (induction isalpha sd s i ats bds rule: Sym_parse_loop.induct)
  case (1 isalpha sd s i ats bds)
  show ?case
  proof (cases "i < length s")
    case False
    with "1.prems" show ?thesis
      by (subst Sym_parse_loop.simps) simp
  next
    case lt: True
    then have d: "drop i s = s ! i # drop (Suc i) s"
      by (simp add: Cons_nth_drop_Suc)
    show ?thesis
    proof (cases "Suc i < length s")
      case False
      with lt have e: "drop (Suc i) s = []" by simp
      show ?thesis
        using "1.IH"(2,3) lt False
        by (subst Sym_parse_loop.simps) (simp add: d e)
    next
      case True
      then have d2: "drop (Suc i) s = s ! Suc i # drop (Suc (Suc i)) s"
        by (simp add: Cons_nth_drop_Suc)
      show ?thesis
        using "1.IH" lt True
        by (subst Sym_parse_loop.simps) (simp add: d d2 split: prod.splits)
    qed
  qed
qed

lemma Sym_parse_structure_scan: "Sym_parse_structure isalpha sd s = scan_spec isalpha sd s"
  by (simp add: Sym_parse_structure_def Sym_parse_loop_scan)

lemma Num_parse_loop_Sym:
  "Num_parse_loop isalpha sd s i ats bds = Sym_parse_loop isalpha sd s i ats bds"
proof (induction isalpha sd s i ats bds rule: Sym_parse_loop.induct)
  case (1 isalpha sd s i ats bds)
  then show ?case
    by (subst Num_parse_loop.simps, subst Sym_parse_loop.simps) auto
qed

lemma Num_parse_structure_scan: "Num_parse_structure isalpha sd s = scan_spec isalpha sd s"
  by (simp add: Num_parse_structure_def Num_parse_loop_Sym Sym_parse_loop_scan)

lemma MolecularChainNumeric_Sym:
  "MolecularChainNumeric isalpha s md sd = SymbolicMolecularChain isalpha s md sd"
  by (simp add: MolecularChainNumeric_def SymbolicMolecularChain_def
        Sym_parse_structure_scan Num_parse_structure_scan)

lemma chain_fields:
  "atoms (SymbolicMolecularChain isalpha s md sd) = fst (scan_spec isalpha sd s)"
  "bonds (SymbolicMolecularChain isalpha s md sd) = snd (scan_spec isalpha sd s)"
  "N (SymbolicMolecularChain isalpha s md sd) = length (fst (scan_spec isalpha sd s))"
  "mass_dict (SymbolicMolecularChain isalpha s md sd) = md"
  "spring_dict (SymbolicMolecularChain isalpha s md sd) = sd"
  "structure (SymbolicMolecularChain isalpha s md sd) = s"
  by (simp_all add: SymbolicMolecularChain_def Sym_parse_structure_scan split: prod.splits)

lemma chain_fields_Num:
  "atoms (MolecularChainNumeric isalpha s md sd) = fst (scan_spec isalpha sd s)"
  "bonds (MolecularChainNumeric isalpha s md sd) = snd (scan_spec isalpha sd s)"
  "N (MolecularChainNumeric isalpha s md sd) = length (fst (scan_spec isalpha sd s))"
  "mass_dict (MolecularChainNumeric isalpha s md sd) = md"
  "spring_dict (MolecularChainNumeric isalpha s md sd) = sd"
  "structure (MolecularChainNumeric isalpha s md sd) = s"
  by (simp_all add: MolecularChainNumeric_Sym chain_fields)



lemma scan_length_le:
  "length (snd (scan_spec isalpha sd s)) \<le> length (fst (scan_spec isalpha sd s))"
  by (induction isalpha sd s rule: scan_spec.induct) (auto split: if_splits prod.splits)

lemma scan_valid:
  "valid_structure isalpha sd s \<Longrightarrow>
   length (snd (scan_spec isalpha sd s)) + 1 = length (fst (scan_spec isalpha sd s))"
  by (induction isalpha sd s rule: valid_structure.induct) (auto split: prod.splits)

lemma scan_skip:
  "\<not> isalpha b \<Longrightarrow> scan_spec isalpha sd (b # s) = scan_spec isalpha sd s"
  by (cases s) simp_all


lemma scan_trailing_bond:
  "valid_structure isalpha sd s \<Longrightarrow> sd [b] \<noteq> None \<Longrightarrow>
   scan_spec isalpha sd (s @ [b]) = (fst (scan_spec isalpha sd s), snd (scan_spec isalpha sd s) @ [[b]])"
  by (induction isalpha sd s rule: valid_structure.induct) (auto split: prod.splits)

lemma scan_no_alpha_bond:
  "\<forall>c. isalpha c \<longrightarrow> sd [c] = None \<Longrightarrow>
   fst (scan_spec isalpha sd s) = map (\<lambda>c. [c]) (filter isalpha s)"
  by (induction isalpha sd s rule: scan_spec.induct) (auto split: prod.splits)

section \<open>Lemmas: lookups and quotients\<close>

lemma bind_res_Inr [simp]: "bind_res (Inr x) f = f x"
  by (simp add: bind_res_def)

lemma bind_res_Inl [simp]: "bind_res (Inl e) f = Inl e"
  by (simp add: bind_res_def)

lemma lookup_all_map:
  "map d xs = map Some vs \<Longrightarrow> lookup_all d xs = Inr vs"
proof (induction xs arbitrary: vs)
  case Nil
  then show ?case by simp
next
  case (Cons x xs)
  then obtain v vs' where "vs = v # vs'" "d x = Some v" "map d xs = map Some vs'"
    by (cases vs) auto
  with Cons.IH show ?case by simp
qed

lemma lookup_all_KeyError:
  "\<forall>x\<in>set pre. d x \<noteq> None \<Longrightarrow> d a = None \<Longrightarrow>
   lookup_all d (pre @ a # post) = Inl (KeyError a)"
  by (induction pre) auto




lemma quot_ok:
  "j < length k \<Longrightarrow> i < length m \<Longrightarrow> m ! i \<noteq> 0 \<Longrightarrow> quot k m j i = Inr (k ! j / m ! i)"
  by (simp add: quot_def getitem_def pdiv_def)

lemma neg_quot_ok:
  "j < length k \<Longrightarrow> i < length m \<Longrightarrow> m ! i \<noteq> 0 \<Longrightarrow> neg_quot k m j i = Inr (- k ! j / m ! i)"
  by (simp add: neg_quot_def getitem_def pdiv_def)

section \<open>Lemmas: the loop of the matrix builder\<close>

lemma Sym_build_row_ok:
  fixes m k :: "'a::field list"
  assumes "i < n" "length m = n"
    and "0 < i \<Longrightarrow> i - Suc 0 < length k" "i + 1 < n \<Longrightarrow> i < length k"
    and "m ! i \<noteq> 0" "length A = n" "A ! i = replicate n 0"
  shows "(Sym_build_row m k n i A :: 'k error + 'a list list) =
           Inr (A[i := map (entry_spec m k n i) [0..<n]])"
proof -
  define R where "R = (if 0 < i \<and> i + 1 < n then
       (replicate n 0)[i - 1 := - k ! (i - 1) / m ! i, i := 0 + k ! (i - 1) / m ! i,
          i + 1 := - k ! i / m ! i, i := 0 + k ! (i - 1) / m ! i + k ! i / m ! i]
     else if 0 < i then
       (replicate n 0)[i - 1 := - k ! (i - 1) / m ! i, i := 0 + k ! (i - 1) / m ! i]
     else if i + 1 < n then
       (replicate n 0)[i + 1 := - k ! i / m ! i, i := 0 + k ! i / m ! i]
     else replicate n (0::'a))"
  have len: "length R = n"
    by (simp add: R_def)
  have ent: "R ! j = entry_spec m k n i j" if "j < n" for j
    using that assms(1) by (auto simp: R_def entry_spec_def nth_list_update)
  have R: "R = map (entry_spec m k n i) [0..<n]"
    by (rule nth_equalityI) (simp_all add: len ent)
  note k1 = assms(3) and k2 = assms(4)
  have mi: "i < length m"
    using assms(1,2) by simp
  have A0: "A[i := replicate n 0] = A"
    using assms(7) list_update_id [of A i] by simp
  have "(Sym_build_row m k n i A :: 'k error + 'a list list) = Inr (A[i := R])"
  proof (cases "0 < i")
    case pos: True
    show ?thesis
    proof (cases "i + 1 < n")
      case True
      with pos show ?thesis
        by (simp add: Sym_build_row_def quot_ok neg_quot_ok k1 k2 mi assms(5,6,7) assms(1)
              setitem_def Let_def R_def)
    next
      case False
      with pos show ?thesis
        by (simp add: Sym_build_row_def quot_ok neg_quot_ok k1 mi assms(5,6,7) assms(1)
              setitem_def Let_def R_def)
    qed
  next
    case z: False
    show ?thesis
    proof (cases "i + 1 < n")
      case True
      from z have i0: "i = 0" by simp
      from True k2 mi assms(5,6,7) have "0 < length k" "0 < length m" "m ! 0 \<noteq> 0"
        "A ! 0 = replicate n 0" "0 < length A"
        by (simp_all add: i0)
      with True show ?thesis
        by (simp add: Sym_build_row_def quot_ok neg_quot_ok i0 setitem_def Let_def R_def)
    next
      case False
      from z have i0: "i = 0" by simp
      from A0 have "A[0 := replicate n 0] = A"
        by (simp add: i0)
      with False show ?thesis
        by (simp add: Sym_build_row_def i0 R_def)
    qed
  qed
  then show ?thesis
    by (simp add: R)
qed

lemma Sym_build_loop_ok:
  fixes m k :: "'a::field list"
  assumes "length m = n" "n - 1 \<le> length k" "\<forall>i<n. m ! i \<noteq> 0"
  shows "j \<le> n \<Longrightarrow> length A = n \<Longrightarrow>
         (\<forall>r<n. A ! r = (if r < j then map (entry_spec m k n r) [0..<n] else replicate n 0)) \<Longrightarrow>
         (Sym_build_loop m k n [j..<n] A :: 'k error + 'a list list) = Inr (matrix_spec m k n)"
proof (induction "n - j" arbitrary: j A)
  case 0
  then have "j = n" by simp
  with 0 have "A = matrix_spec m k n"
    by (auto simp: matrix_spec_def intro!: nth_equalityI)
  with \<open>j = n\<close> show ?case by simp
next
  case (Suc d)
  then have lt: "j < n" by simp
  then have up: "[j..<n] = j # [Suc j..<n]"
    by (simp add: upt_conv_Cons)
  have row: "(Sym_build_row m k n j A :: 'k error + 'a list list) =
               Inr (A[j := map (entry_spec m k n j) [0..<n]])"
  proof (rule Sym_build_row_ok)
    show "0 < j \<Longrightarrow> j - Suc 0 < length k" "j + 1 < n \<Longrightarrow> j < length k"
      using lt assms(2) by arith+
  qed (use lt assms Suc.prems in simp_all)
  have "(Sym_build_loop m k n [Suc j..<n] (A[j := map (entry_spec m k n j) [0..<n]])
          :: 'k error + 'a list list) = Inr (matrix_spec m k n)"
    using Suc.hyps(2) lt Suc.prems
    by (intro Suc.hyps(1)) (auto simp: nth_list_update)
  then show ?case
    by (simp add: up row)
qed

lemma zeros_nth: "r < n \<Longrightarrow> zeros n ! r = replicate n 0"
  by (simp add: zeros_def)

lemma Sym_build_matrix_ok:
  fixes m k :: "'a::field list"
  assumes "N self = length (atoms self)"
    and "map (mass_dict self) (atoms self) = map Some m"
    and "map (spring_dict self) (bonds self) = map Some k"
    and "N self - 1 \<le> length k" and "0 \<notin> set m"
  shows "Sym_build_matrix self = Inr (matrix_spec m k (N self))"
proof -
  have len: "length m = N self"
    using assms(1,2) by (metis length_map)
  have nz: "\<forall>i<N self. m ! i \<noteq> 0"
    using assms(5) len by (metis nth_mem)
  have "(Sym_build_loop m k (N self) [0..<N self] (zeros (N self)) :: 'c list error + 'a list list)
          = Inr (matrix_spec m k (N self))"
    using len assms(4) nz
    by (intro Sym_build_loop_ok) (simp_all add: zeros_nth, simp add: zeros_def)
  then show ?thesis
    by (simp add: Sym_build_matrix_def lookup_all_map assms(2,3))
qed







lemma Num_build_row_Sym: "Num_build_row m k n i A = Sym_build_row m k n i A"
  by (simp add: Num_build_row_def Sym_build_row_def)

lemma Num_build_loop_Sym: "Num_build_loop m k n is A = Sym_build_loop m k n is A"
  by (induction "is" arbitrary: A) (auto simp: Num_build_row_Sym split: sum.splits)

lemma Num_build_matrix_Sym: "Num_build_matrix self = Sym_build_matrix self"
  by (simp add: Num_build_matrix_def Sym_build_matrix_def Num_build_loop_Sym)

section \<open>Lemmas: the dynamical matrix\<close>

lemma matrix_spec_nth:
  "i < n \<Longrightarrow> j < n \<Longrightarrow> matrix_spec m k n ! i ! j = entry_spec m k n i j"
  by (simp add: matrix_spec_def)

lemma matrix_spec_length:
  "length (matrix_spec m k n) = n"
  "i < n \<Longrightarrow> length (matrix_spec m k n ! i) = n"
  by (simp_all add: matrix_spec_def)

lemma entry_spec_deltas:
  "entry_spec m k n i j =
     (if j = i then
        (if 0 < i then k ! (i - 1) / m ! i else 0) + (if i + 1 < n then k ! i / m ! i else 0)
      else 0) +
     (if j = i - 1 then (if 0 < i then - k ! (i - 1) / m ! i else 0) else 0) +
     (if j = i + 1 then - k ! i / m ! i else 0)"
  by (cases "i = 0") (auto simp: entry_spec_def)

lemma entry_spec_row_sum:
  fixes m k :: "'a::field list"
  assumes "i < n"
  shows "sum_list (map (entry_spec m k n i) [0..<n]) = 0"
proof -
  have fin: "finite {0..<n}" by simp
  have "sum_list (map (entry_spec m k n i) [0..<n]) = sum (entry_spec m k n i) {0..<n}"
    by (simp add: interv_sum_list_conv_sum_set_nat)
  also have "\<dots> = (\<Sum>j = 0..<n.
     (if j = i then
        (if 0 < i then k ! (i - 1) / m ! i else 0) + (if i + 1 < n then k ! i / m ! i else 0)
      else 0) +
     (if j = i - 1 then (if 0 < i then - k ! (i - 1) / m ! i else 0) else 0) +
     (if j = i + 1 then - k ! i / m ! i else 0))"
    by (rule sum.cong) (simp_all only: entry_spec_deltas [symmetric])
  also have "\<dots> =
      (if i \<in> {0..<n} then
        (if 0 < i then k ! (i - 1) / m ! i else 0) + (if i + 1 < n then k ! i / m ! i else 0)
       else 0) +
      (if i - 1 \<in> {0..<n} then (if 0 < i then - k ! (i - 1) / m ! i else 0) else 0) +
      (if i + 1 \<in> {0..<n} then - k ! i / m ! i else 0)"
    by (simp only: sum.distrib sum.delta [OF fin])
  also have "\<dots> = 0"
    using assms less_imp_diff_less [OF assms, of "Suc 0"] by simp
  finally show ?thesis .
qed

lemma map2_mult_ones:
  fixes r :: "'a::semiring_1 list"
  shows "length r = n \<Longrightarrow> map2 (*) r (replicate n 1) = r"
  by (rule nth_equalityI) simp_all

lemma entry_spec_weighted:
  fixes m k :: "'a::field list"
  assumes "m ! i \<noteq> 0" "m ! j \<noteq> 0"
  shows "m ! i * entry_spec m k n i j = m ! j * entry_spec m k n j i"
proof -
  consider "j = i" | "j + 1 = i" | "j = i + 1" | "j \<noteq> i" "j + 1 \<noteq> i" "j \<noteq> i + 1"
    by blast
  then show ?thesis
  proof cases
    case 1
    then show ?thesis by simp
  next
    case 2
    with assms show ?thesis by (auto simp: entry_spec_def)
  next
    case 3
    with assms show ?thesis by (auto simp: entry_spec_def)
  next
    case 4
    then show ?thesis by (auto simp: entry_spec_def)
  qed
qed

lemma entry_spec_off_diagonal:
  fixes m k :: "'a::field list"
  assumes "i < n" "j < n" "i \<noteq> j" "length m = n" "length k = n - 1" "0 \<notin> set m" "0 \<notin> set k"
  shows "entry_spec m k n i j \<noteq> 0 \<longleftrightarrow> j = i + 1 \<or> i = j + 1"
proof -
  have mi: "m ! i \<noteq> 0"
    using assms(1,4,6) by (metis nth_mem)
  have k1: "k ! i \<noteq> 0" if "j = i + 1"
  proof -
    from that assms(2,5) have "i < length k" by simp
    with assms(7) show ?thesis by (metis nth_mem)
  qed
  have k2: "k ! (i - 1) \<noteq> 0" if "i = j + 1"
  proof -
    from that assms(1,5) have "i - 1 < length k" by simp
    with assms(7) show ?thesis by (metis nth_mem)
  qed
  show ?thesis
    using assms(3) mi k1 k2 by (auto simp: entry_spec_def)
qed

lemma adjacent_pairs_card:
  "card {(i, j). i < j \<and> j < n \<and> (j = i + 1 \<or> i = j + 1)} = n - 1"
proof -
  have "{(i, j). i < j \<and> j < n \<and> (j = i + 1 \<or> i = j + 1)} = (\<lambda>i. (i, i + 1)) ` {0..<n - 1}"
    by (auto simp: image_iff)
  moreover have "inj_on (\<lambda>i::nat. (i, i + 1)) {0..<n - 1}"
    by (simp add: inj_on_def)
  ultimately show ?thesis
    by (simp add: card_image)
qed

section \<open>Lemmas: determinants of the small chains\<close>

lemma upt_2: "[0..<2] = [0, Suc 0]"
  by (simp add: numeral_2_eq_2)

lemma upt_3: "[0..<3] = [0, Suc 0, Suc (Suc 0)]"
  by (simp add: numeral_3_eq_3)

lemma det_2: "det [[a, b], [c, d]] = a * d - b * c"
  by (simp add: minor_cols_def upt_2 algebra_simps)

lemma det_3:
  "det [[a, b, c], [d, e, f], [g, h, i]] =
     a * (e * i - f * h) - b * (d * i - f * g) + c * (d * h - e * g)"
  by (simp add: minor_cols_def upt_3 upt_2 numeral_2_eq_2 algebra_simps)

lemma CO2_matrix:
  fixes m M k :: "'a::field"
  assumes "m \<noteq> 0" "M \<noteq> 0"
  shows "Sym_build_matrix (SymbolicMolecularChain isalpha_ascii ''O=C=O''
            [''O'' \<mapsto> m, ''C'' \<mapsto> M] [''='' \<mapsto> k]) =
         Inr [[k / m, - k / m, 0], [- k / M, k / M + k / M, - k / M], [0, - k / m, k / m]]"
proof -
  define c where "c = SymbolicMolecularChain isalpha_ascii ''O=C=O''
            [''O'' \<mapsto> m, ''C'' \<mapsto> M] [''='' \<mapsto> k]"
  have "Sym_build_matrix c = Inr (matrix_spec [m, M, m] [k, k] (N c))"
    using assms
    by (intro Sym_build_matrix_ok) (simp_all add: c_def chain_fields isalpha_ascii_def)
  moreover have "N c = 3"
    by (simp add: c_def chain_fields isalpha_ascii_def)
  moreover have "matrix_spec [m, M, m] [k, k] 3 =
      [[k / m, - k / m, 0], [- k / M, k / M + k / M, - k / M], [0, - k / m, k / m]]"
    by (simp add: matrix_spec_def entry_spec_def upt_3)
  ultimately show ?thesis
    by (simp add: c_def)
qed

lemma CO2_characteristic_polynomial:
  fixes m M k :: "'a::field"
  assumes "m \<noteq> 0" "M \<noteq> 0"
  shows "characteristic_polynomial
           [[k / m, - k / m, 0], [- k / M, k / M + k / M, - k / M], [0, - k / m, k / m]] lam =
         (k / m - lam) * lam * (lam - (k / m + 2 * k / M))"
proof -
  have "characteristic_polynomial
           [[k / m, - k / m, 0], [- k / M, k / M + k / M, - k / M], [0, - k / m, k / m]] lam =
        det [[k / m - lam, - k / m, 0], [- k / M, k / M + k / M - lam, - k / M],
             [0, - k / m, k / m - lam]]"
    by (simp add: characteristic_polynomial_def mat_sub_def scalar_mult_def eye_def upt_3)
  also have "\<dots> = (k / m - lam) * lam * (lam - (k / m + 2 * k / M))"
    unfolding det_3 using assms by (simp add: field_simps)
  finally show ?thesis .
qed

lemma OC_matrix:
  "Sym_build_matrix (SymbolicMolecularChain isalpha_ascii ''O=C''
       [''O'' \<mapsto> 1 :: real, ''C'' \<mapsto> 2] [''='' \<mapsto> 1]) =
     Inr [[1, - 1], [- 1 / 2, 1 / 2]]"
proof -
  define c where "c = SymbolicMolecularChain isalpha_ascii ''O=C''
       [''O'' \<mapsto> 1 :: real, ''C'' \<mapsto> 2] [''='' \<mapsto> 1]"
  have "Sym_build_matrix c = Inr (matrix_spec [1, 2] [1] (N c))"
    by (rule Sym_build_matrix_ok) (simp_all add: c_def chain_fields isalpha_ascii_def)
  moreover have "N c = 2"
    by (simp add: c_def chain_fields isalpha_ascii_def)
  moreover have "matrix_spec [1, 2] [1 :: real] 2 = [[1, - 1], [- 1 / 2, 1 / 2]]"
    by (simp add: matrix_spec_def entry_spec_def upt_2)
  ultimately show ?thesis
    by (simp add: c_def)
qed

lemma OC_symbolic_roots:
  "eigenvalues [[1, - 1], [- 1 / 2, 1 / 2 :: real]] = {0, 3 / 2}"
proof -
  have "characteristic_polynomial [[1, - 1], [- 1 / 2, 1 / 2 :: real]] lam = lam * (lam - 3 / 2)"
    for lam
  proof -
    have "mat_sub [[1, - 1], [- 1 / 2, 1 / 2 :: real]] (scalar_mult lam
              (eye (length [[1, - 1], [- 1 / 2, 1 / 2 :: real]]))) =
            [[1 - lam, - 1], [- 1 / 2, 1 / 2 - lam]]"
      by (simp add: mat_sub_def scalar_mult_def eye_def upt_2)
    then have "characteristic_polynomial [[1, - 1], [- 1 / 2, 1 / 2 :: real]] lam =
            det [[1 - lam, - 1], [- 1 / 2, 1 / 2 - lam]]"
      by (simp only: characteristic_polynomial_def)
    also have "\<dots> = lam * (lam - 3 / 2)"
      unfolding det_2 by (simp add: field_simps)
    finally show ?thesis .
  qed
  then show ?thesis
    by (auto simp: eigenvalues_def)
qed

lemma OC_eigh_operand:
  "eigh_operand [[1, - 1], [- 1 / 2, 1 / 2 :: real]] = [[1, - 1 / 2], [- 1 / 2, 1 / 2]]"
  by (simp add: eigh_operand_def upt_2)

lemma OC_eigh_roots:
  "eigenvalues [[1, - 1 / 2], [- 1 / 2, 1 / 2 :: real]] = {(3 - sqrt 5) / 4, (3 + sqrt 5) / 4}"
proof -
  have s: "sqrt 5 * sqrt 5 = 5"
    by simp
  have "characteristic_polynomial [[1, - 1 / 2], [- 1 / 2, 1 / 2 :: real]] lam =
          (lam - (3 - sqrt 5) / 4) * (lam - (3 + sqrt 5) / 4)" for lam
  proof -
    have "mat_sub [[1, - 1 / 2], [- 1 / 2, 1 / 2 :: real]] (scalar_mult lam
              (eye (length [[1, - 1 / 2], [- 1 / 2, 1 / 2 :: real]]))) =
            [[1 - lam, - 1 / 2], [- 1 / 2, 1 / 2 - lam]]"
      by (simp add: mat_sub_def scalar_mult_def eye_def upt_2)
    then have "characteristic_polynomial [[1, - 1 / 2], [- 1 / 2, 1 / 2 :: real]] lam =
            det [[1 - lam, - 1 / 2], [- 1 / 2, 1 / 2 - lam]]"
      by (simp only: characteristic_polynomial_def)
    also have "\<dots> = lam * lam - 3 / 2 * lam + 1 / 4"
      unfolding det_2 by (simp add: field_simps)
    also have "\<dots> = lam * lam - 3 / 2 * lam + (9 - sqrt 5 * sqrt 5) / 16"
      by (simp only: s) simp
    also have "\<dots> = (lam - (3 - sqrt 5) / 4) * (lam - (3 + sqrt 5) / 4)"
      by (simp add: field_simps)
    finally show ?thesis .
  qed
  then show ?thesis
    by (auto simp: eigenvalues_def)
qed

section \<open>The claims\<close>

text \<open>
  Claim C1. For every parsed chain with atom masses \<open>m\<close> (none of them zero) and
  bond spring constants \<open>k\<close>, \<open>k ! i\<close> connecting atoms \<open>i\<close> and \<open>i + 1\<close>,
  \<^verbatim>\<open>build_matrix\<close> of the symbolic and of the numeric class return the same N-by-N
  matrix \<open>A\<close>: \<open>A[i,i]\<close> is the sum of \<open>k[i-1]/m[i]\<close> (when \<open>i > 0\<close>) and
  \<open>k[i]/m[i]\<close> (when \<open>i < N - 1\<close>), \<open>A[i,i-1] = -k[i-1]/m[i]\<close> for \<open>i > 0\<close>,
  \<open>A[i,i+1] = -k[i]/m[i]\<close> for \<open>i < N - 1\<close>, and every other entry is zero.
\<close>

theorem C1_build_matrix_entries:
  fixes m k :: "'a::field list"
  assumes "c = SymbolicMolecularChain isalpha s md sd"
    and "c' = MolecularChainNumeric isalpha s md sd"
    and "map md (atoms c) = map Some m"
    and "map sd (bonds c) = map Some k"
    and "length k = N c - 1"
    and "0 \<notin> set m"
  shows "\<exists>A. Sym_build_matrix c = Inr A \<and> Num_build_matrix c' = Inr A \<and>
           length A = N c \<and>
           (\<forall>i<N c. length (A ! i) = N c \<and>
              (\<forall>j<N c. A ! i ! j =
                 (if j = i then
                    (if 0 < i then k ! (i - 1) / m ! i else 0) +
                    (if int i < int (N c) - 1 then k ! i / m ! i else 0)
                  else if j = i - 1 then - k ! (i - 1) / m ! i
                  else if j = i + 1 then - k ! i / m ! i
                  else 0)))"
proof -
  have eq: "c' = c"
    by (simp add: assms(1,2) MolecularChainNumeric_Sym)
  have b: "Sym_build_matrix c = Inr (matrix_spec m k (N c))"
    using assms(3-6) by (intro Sym_build_matrix_ok) (simp_all add: assms(1) chain_fields)
  have e: "matrix_spec m k (N c) ! i ! j =
             (if j = i then
                (if 0 < i then k ! (i - 1) / m ! i else 0) +
                (if int i < int (N c) - 1 then k ! i / m ! i else 0)
              else if j = i - 1 then - k ! (i - 1) / m ! i
              else if j = i + 1 then - k ! i / m ! i
              else 0)" if "i < N c" "j < N c" for i j
  proof -
    have "int i < int (N c) - 1 \<longleftrightarrow> i + 1 < N c" by arith
    moreover have "j \<noteq> i \<Longrightarrow> j = i - 1 \<longleftrightarrow> j + 1 = i" by arith
    ultimately show ?thesis
      using that by (simp add: matrix_spec_nth entry_spec_def)
  qed
  show ?thesis
    by (intro exI [of _ "matrix_spec m k (N c)"] conjI allI impI)
       (simp_all add: b eq Num_build_matrix_Sym matrix_spec_length e)
qed

theorem C1_build_matrix_entries_witness:
  "map [''O'' \<mapsto> 16 :: rat, ''C'' \<mapsto> 12]
     (atoms (SymbolicMolecularChain isalpha_ascii ''O=C=O''
        [''O'' \<mapsto> 16 :: rat, ''C'' \<mapsto> 12] [''='' \<mapsto> (3::rat)])) = map Some [16, 12, 16 :: rat] \<and>
   map [''='' \<mapsto> (3::rat)]
     (bonds (SymbolicMolecularChain isalpha_ascii ''O=C=O''
        [''O'' \<mapsto> 16 :: rat, ''C'' \<mapsto> 12] [''='' \<mapsto> (3::rat)])) = map Some [3, 3] \<and>
   length [3, 3 :: rat] =
     N (SymbolicMolecularChain isalpha_ascii ''O=C=O''
        [''O'' \<mapsto> 16 :: rat, ''C'' \<mapsto> 12] [''='' \<mapsto> (3::rat)]) - 1 \<and>
   (0::rat) \<notin> set [16, 12, 16] \<and>
   (\<exists>A. Sym_build_matrix (SymbolicMolecularChain isalpha_ascii ''O=C=O''
              [''O'' \<mapsto> 16 :: rat, ''C'' \<mapsto> 12] [''='' \<mapsto> (3::rat)]) = Inr A \<and>
        Num_build_matrix (MolecularChainNumeric isalpha_ascii ''O=C=O''
              [''O'' \<mapsto> 16 :: rat, ''C'' \<mapsto> 12] [''='' \<mapsto> (3::rat)]) = Inr A \<and>
        length A = 3 \<and>
        A ! 1 ! 0 = - 1 / 4 \<and> A ! 1 ! 1 = 1 / 2 \<and> A ! 1 ! 2 = - 1 / 4 \<and>
        A ! 0 ! 0 = 3 / 16 \<and> A ! 0 ! 1 = - 3 / 16 \<and> A ! 0 ! 2 = 0)"
proof -
  define c where "c = SymbolicMolecularChain isalpha_ascii ''O=C=O''
        [''O'' \<mapsto> 16 :: rat, ''C'' \<mapsto> 12] [''='' \<mapsto> (3::rat)]"
  define c' where "c' = MolecularChainNumeric isalpha_ascii ''O=C=O''
        [''O'' \<mapsto> 16 :: rat, ''C'' \<mapsto> 12] [''='' \<mapsto> (3::rat)]"
  have h1: "map [''O'' \<mapsto> 16 :: rat, ''C'' \<mapsto> 12] (atoms c) = map Some [16, 12, 16 :: rat]"
    by (simp add: c_def chain_fields isalpha_ascii_def)
  have h2: "map [''='' \<mapsto> (3::rat)] (bonds c) = map Some [3, 3]"
    by (simp add: c_def chain_fields isalpha_ascii_def)
  have n: "N c = 3"
    by (simp add: c_def chain_fields isalpha_ascii_def)
  have h3: "length [3, 3 :: rat] = N c - 1"
    by (simp add: n)
  have h4: "(0::rat) \<notin> set [16, 12, 16]"
    by simp
  from C1_build_matrix_entries [OF c_def c'_def h1 h2 h3 h4]
  obtain A where A: "Sym_build_matrix c = Inr A" "Num_build_matrix c' = Inr A" "length A = N c"
    and ent: "\<forall>i<N c. length (A ! i) = N c \<and>
              (\<forall>j<N c. A ! i ! j =
                 (if j = i then
                    (if 0 < i then [3, 3] ! (i - 1) / [16, 12, 16] ! i else 0) +
                    (if int i < int (N c) - 1 then [3, 3] ! i / [16, 12, 16] ! i else 0)
                  else if j = i - 1 then - [3, 3] ! (i - 1) / [16, 12, 16] ! i
                  else if j = i + 1 then - [3, 3] ! i / [16, 12, 16] ! i
                  else 0))"
    by blast
  have e: "A ! i ! j =
                 (if j = i then
                    (if 0 < i then [3, 3] ! (i - 1) / [16, 12, 16] ! i else 0) +
                    (if int i < 2 then [3, 3] ! i / [16, 12, 16] ! i else 0)
                  else if j = i - 1 then - [3, 3] ! (i - 1) / [16, 12, 16] ! i
                  else if j = i + 1 then - [3, 3] ! i / [16, 12, 16] ! i
                  else 0)" if "i < 3" "j < 3" for i j
    using ent that by (simp add: n)
  have "A ! 1 ! 0 = - 1 / 4" "A ! 1 ! 1 = 1 / 2" "A ! 1 ! 2 = - 1 / 4"
    "A ! 0 ! 0 = 3 / 16" "A ! 0 ! 1 = - 3 / 16" "A ! 0 ! 2 = 0"
    by (simp_all add: e)
  with A h1 h2 h3 h4 n show ?thesis
    unfolding c_def c'_def by simp
qed

text \<open>
  Claim C2. For every chain whose parsed bond list has length \<open>N - 1\<close> (masses
  found and nonzero), each of the \<open>N\<close> rows of the matrix returned by
  \<^verbatim>\<open>build_matrix\<close> sums to zero exactly, so the all-ones vector is an eigenvector
  with eigenvalue zero; and when every spring constant is nonzero, the nonzero
  off-diagonal entries are exactly those at the positions \<open>(i, i + 1)\<close> and
  \<open>(i + 1, i)\<close>, which makes \<open>N - 1\<close> pairs.
\<close>

theorem C2_rows_sum_to_zero:
  fixes m k :: "'a::field list"
  assumes "c = SymbolicMolecularChain isalpha s md sd"
    and "c' = MolecularChainNumeric isalpha s md sd"
    and "map md (atoms c) = map Some m"
    and "0 \<notin> set m"
    and "map sd (bonds c) = map Some k"
    and "length (bonds c) + 1 = N c"
  shows "\<exists>A. Sym_build_matrix c = Inr A \<and> Num_build_matrix c' = Inr A \<and>
           length A = N c \<and>
           (\<forall>i<N c. sum_list (A ! i) = 0) \<and>
           mat_vec A (replicate (N c) 1) = map ((*) 0) (replicate (N c) 1) \<and>
           replicate (N c) (1::'a) \<noteq> replicate (N c) 0 \<and>
           (0 \<notin> set k \<longrightarrow>
              (\<forall>i<N c. \<forall>j<N c. i \<noteq> j \<longrightarrow> (A ! i ! j \<noteq> 0 \<longleftrightarrow> j = i + 1 \<or> i = j + 1)) \<and>
              card {(i, j). i < j \<and> j < N c \<and> A ! i ! j \<noteq> 0 \<and> A ! j ! i \<noteq> 0} = N c - 1)"
proof -
  define n where "n = N c"
  define A where "A = matrix_spec m k n"
  have eq: "c' = c"
    by (simp add: assms(1,2) MolecularChainNumeric_Sym)
  have lk: "length k = n - 1"
    using assms(5,6) by (metis n_def length_map add_diff_cancel_right')
  have lm: "length m = n"
    using assms(1,3) by (metis n_def length_map chain_fields(1,3))
  have pos: "0 < n"
    using assms(6) by (simp add: n_def)
  have b: "Sym_build_matrix c = Inr A"
    unfolding A_def n_def using assms(3,5) lk assms(4)
    by (intro Sym_build_matrix_ok) (simp_all add: assms(1) chain_fields n_def)
  have rows: "\<forall>i<n. sum_list (A ! i) = 0"
    by (simp add: A_def matrix_spec_def entry_spec_row_sum)
  have "mat_vec A (replicate n 1) = map (\<lambda>row. sum_list row) A"
    unfolding mat_vec_def
    by (rule map_cong) (auto simp: A_def matrix_spec_def map2_mult_ones)
  also have "\<dots> = replicate n 0"
    using rows by (intro nth_equalityI) (simp_all add: A_def matrix_spec_length)
  finally have ev: "mat_vec A (replicate n 1) = map ((*) 0) (replicate n 1)"
    by simp
  have ne: "replicate n (1::'a) \<noteq> replicate n 0"
    using pos by (cases n) simp_all
  have off: "\<forall>i<n. \<forall>j<n. i \<noteq> j \<longrightarrow> (A ! i ! j \<noteq> 0 \<longleftrightarrow> j = i + 1 \<or> i = j + 1)"
    if "0 \<notin> set k"
    using that lm lk assms(4)
    by (simp add: A_def matrix_spec_nth entry_spec_off_diagonal)
  have cnt: "card {(i, j). i < j \<and> j < n \<and> A ! i ! j \<noteq> 0 \<and> A ! j ! i \<noteq> 0} = n - 1"
    if "0 \<notin> set k"
  proof -
    have P1: "j = Suc i" if "i < j" "j < n" "A ! i ! j \<noteq> 0" for i j
    proof -
      from that have "i < n" "i \<noteq> j" by simp_all
      with off [OF \<open>0 \<notin> set k\<close>] that have "j = i + 1 \<or> i = j + 1" by blast
      with that(1) show ?thesis by simp
    qed
    have P2: "A ! i ! Suc i \<noteq> 0" "A ! Suc i ! i \<noteq> 0" if "Suc i < n" for i
    proof -
      from that have "i < n" "i \<noteq> Suc i" "Suc i \<noteq> i" by simp_all
      with off [OF \<open>0 \<notin> set k\<close>] that show "A ! i ! Suc i \<noteq> 0" "A ! Suc i ! i \<noteq> 0"
        by simp_all
    qed
    have "{(i, j). i < j \<and> j < n \<and> A ! i ! j \<noteq> 0 \<and> A ! j ! i \<noteq> 0} =
          {(i, j). i < j \<and> j < n \<and> (j = i + 1 \<or> i = j + 1)}"
      by (auto dest: P1 simp: P2)
    then show ?thesis
      by (simp only: adjacent_pairs_card)
  qed
  show ?thesis
    using b rows ev ne off cnt
    by (intro exI [of _ A]) (simp add: eq Num_build_matrix_Sym n_def [symmetric] A_def matrix_spec_length)
qed

theorem C2_rows_sum_to_zero_witness:
  "map [''O'' \<mapsto> 16 :: rat, ''C'' \<mapsto> 12]
     (atoms (SymbolicMolecularChain isalpha_ascii ''O=C=O''
        [''O'' \<mapsto> 16 :: rat, ''C'' \<mapsto> 12] [''='' \<mapsto> 3])) = map Some [16, 12, 16] \<and>
   (0::rat) \<notin> set [16, 12, 16] \<and>
   map [''='' \<mapsto> 3 :: rat]
     (bonds (SymbolicMolecularChain isalpha_ascii ''O=C=O''
        [''O'' \<mapsto> 16 :: rat, ''C'' \<mapsto> 12] [''='' \<mapsto> 3])) = map Some [3, 3] \<and>
   length (bonds (SymbolicMolecularChain isalpha_ascii ''O=C=O''
        [''O'' \<mapsto> 16 :: rat, ''C'' \<mapsto> 12] [''='' \<mapsto> 3])) + 1 =
     N (SymbolicMolecularChain isalpha_ascii ''O=C=O''
        [''O'' \<mapsto> 16 :: rat, ''C'' \<mapsto> 12] [''='' \<mapsto> 3]) \<and>
   (0::rat) \<notin> set [3, 3] \<and>
   (\<exists>A. Sym_build_matrix (SymbolicMolecularChain isalpha_ascii ''O=C=O''
              [''O'' \<mapsto> 16 :: rat, ''C'' \<mapsto> 12] [''='' \<mapsto> 3]) = Inr A \<and>
        Num_build_matrix (MolecularChainNumeric isalpha_ascii ''O=C=O''
              [''O'' \<mapsto> 16 :: rat, ''C'' \<mapsto> 12] [''='' \<mapsto> 3]) = Inr A \<and>
        length A = 3 \<and>
        sum_list (A ! 0) = 0 \<and> sum_list (A ! 1) = 0 \<and> sum_list (A ! 2) = 0 \<and>
        mat_vec A [1, 1, 1] = [0, 0, 0] \<and>
        A ! 0 ! 1 \<noteq> 0 \<and> A ! 1 ! 0 \<noteq> 0 \<and> A ! 0 ! 2 = 0 \<and>
        card {(i, j). i < j \<and> j < 3 \<and> A ! i ! j \<noteq> 0 \<and> A ! j ! i \<noteq> 0} = 2)"
proof -
  define c where "c = SymbolicMolecularChain isalpha_ascii ''O=C=O''
        [''O'' \<mapsto> 16 :: rat, ''C'' \<mapsto> 12] [''='' \<mapsto> 3]"
  define c' where "c' = MolecularChainNumeric isalpha_ascii ''O=C=O''
        [''O'' \<mapsto> 16 :: rat, ''C'' \<mapsto> 12] [''='' \<mapsto> 3]"
  have h1: "map [''O'' \<mapsto> 16 :: rat, ''C'' \<mapsto> 12] (atoms c) = map Some [16, 12, 16]"
    by (simp add: c_def chain_fields isalpha_ascii_def)
  have h2: "(0::rat) \<notin> set [16, 12, 16]"
    by simp
  have h3: "map [''='' \<mapsto> 3 :: rat] (bonds c) = map Some [3, 3]"
    by (simp add: c_def chain_fields isalpha_ascii_def)
  have n: "N c = 3"
    by (simp add: c_def chain_fields isalpha_ascii_def)
  have h4: "length (bonds c) + 1 = N c"
    by (simp add: c_def chain_fields isalpha_ascii_def)
  have h5: "(0::rat) \<notin> set [3, 3]"
    by simp
  from C2_rows_sum_to_zero [OF c_def c'_def h1 h2 h3 h4] h5
  obtain A where A: "Sym_build_matrix c = Inr A" "Num_build_matrix c' = Inr A" "length A = N c"
    and rows: "\<forall>i<N c. sum_list (A ! i) = 0"
    and ev: "mat_vec A (replicate (N c) 1) = map ((*) 0) (replicate (N c) 1)"
    and off: "\<forall>i<N c. \<forall>j<N c. i \<noteq> j \<longrightarrow> (A ! i ! j \<noteq> 0 \<longleftrightarrow> j = i + 1 \<or> i = j + 1)"
    and cnt: "card {(i, j). i < j \<and> j < N c \<and> A ! i ! j \<noteq> 0 \<and> A ! j ! i \<noteq> 0} = N c - 1"
    by blast
  have r: "sum_list (A ! 0) = 0" "sum_list (A ! 1) = 0" "sum_list (A ! 2) = 0"
    using rows by (simp_all add: n)
  have three: "replicate 3 x = [x, x, x]" for x :: rat
    by (simp add: numeral_3_eq_3)
  have e: "mat_vec A [1, 1, 1] = [0, 0, 0]"
    using ev by (simp add: n three)
  have o: "A ! 0 ! 1 \<noteq> 0" "A ! 1 ! 0 \<noteq> 0" "A ! 0 ! 2 = 0"
    using off [rule_format, of 0 1] off [rule_format, of 1 0] off [rule_format, of 0 2]
    by (simp_all add: n)
  have cd: "card {(i, j). i < j \<and> j < 3 \<and> A ! i ! j \<noteq> 0 \<and> A ! j ! i \<noteq> 0} = 2"
    using cnt by (simp add: n)
  show ?thesis
    using h1 h2 h3 h4 h5 A r e o cd n
    unfolding c_def c'_def by (intro conjI exI [of _ A]) simp_all
qed

text \<open>
  Claim C3 does not hold as stated: the matrix of the numeric class is not
  symmetric in general. For the chain \<open>O=C\<close> with masses 1 and 2 and spring constant 1 the
  entries \<open>A[0,1] = -1\<close> and \<open>A[1,0] = -1/2\<close> differ.
\<close>

theorem C3_counterexample:
  "Num_build_matrix (MolecularChainNumeric isalpha_ascii ''O=C''
       [''O'' \<mapsto> 1 :: real, ''C'' \<mapsto> 2] [''='' \<mapsto> 1]) =
     Inr [[1, - 1], [- 1 / 2, 1 / 2]] \<and>
   [[1, - 1], [- 1 / 2, 1 / 2 :: real]] ! 0 ! 1 \<noteq> [[1, - 1], [- 1 / 2, 1 / 2]] ! 1 ! 0"
proof -
  define c where "c = SymbolicMolecularChain isalpha_ascii ''O=C''
       [''O'' \<mapsto> 1 :: real, ''C'' \<mapsto> 2] [''='' \<mapsto> 1]"
  have "Sym_build_matrix c = Inr (matrix_spec [1, 2] [1] (N c))"
    by (rule Sym_build_matrix_ok) (simp_all add: c_def chain_fields isalpha_ascii_def)
  moreover have "N c = 2"
    by (simp add: c_def chain_fields isalpha_ascii_def)
  moreover have "matrix_spec [1, 2] [1 :: real] 2 = [[1, - 1], [- 1 / 2, 1 / 2]]"
    by (simp add: matrix_spec_def entry_spec_def upt_2)
  ultimately show ?thesis
    by (simp add: Num_build_matrix_Sym MolecularChainNumeric_Sym c_def)
qed

text \<open>
  Claim C3, as the code has it. For every chain of the numeric class with masses
  found and nonzero and at least \<open>N - 1\<close> parsed bonds, the matrix \<open>A\<close> built is
  symmetric when all atoms of the chain have the same mass, and not in general. In
  exact arithmetic, the values read as elements of a field, it satisfies
  \<open>m[i] * A[i,j] = m[j] * A[j,i]\<close> for all \<open>i\<close>, \<open>j\<close>; in floating point this
  identity holds up to rounding only, whereas the symmetry for equal masses is
  exact, the two entries being the same quotient.
\<close>

theorem C3_mass_weighted_symmetry:
  fixes m k :: "'a::field list"
  assumes "c = MolecularChainNumeric isalpha s md sd"
    and "map md (atoms c) = map Some m"
    and "0 \<notin> set m"
    and "map sd (bonds c) = map Some k"
    and "N c - 1 \<le> length k"
  shows "\<exists>A. Num_build_matrix c = Inr A \<and>
           (\<forall>i<N c. \<forall>j<N c. m ! i * A ! i ! j = m ! j * A ! j ! i) \<and>
           ((\<forall>i<N c. m ! i = m ! 0) \<longrightarrow> (\<forall>i<N c. \<forall>j<N c. A ! i ! j = A ! j ! i))"
proof -
  define n where "n = N c"
  define A where "A = matrix_spec m k n"
  have c: "c = SymbolicMolecularChain isalpha s md sd"
    by (simp add: assms(1) MolecularChainNumeric_Sym)
  have lm: "length m = n"
    using c assms(2) by (metis n_def length_map chain_fields(1,3))
  have nz: "m ! i \<noteq> 0" if "i < n" for i
    using that lm assms(3) by (metis nth_mem)
  have b: "Num_build_matrix c = Inr A"
    unfolding A_def n_def Num_build_matrix_Sym using assms(2-5)
    by (intro Sym_build_matrix_ok) (simp_all add: c chain_fields)
  have w: "m ! i * A ! i ! j = m ! j * A ! j ! i" if "i < n" "j < n" for i j
    using that entry_spec_weighted [of m i j k n]
    by (simp add: A_def matrix_spec_nth nz)
  have sym: "A ! i ! j = A ! j ! i" if "\<forall>i<n. m ! i = m ! 0" "i < n" "j < n" for i j
  proof -
    from that have "m ! i = m ! 0" "m ! j = m ! 0" by blast+
    with w [OF that(2,3)] have "m ! 0 * A ! i ! j = m ! 0 * A ! j ! i" by simp
    moreover have "m ! 0 \<noteq> 0" using that(2) by (intro nz) arith
    ultimately show ?thesis by simp
  qed
  show ?thesis
    unfolding n_def [symmetric] using b w sym by (intro exI [of _ A]) blast
qed

theorem C3_mass_weighted_symmetry_witness:
  "map [''O'' \<mapsto> 16 :: real, ''C'' \<mapsto> 12]
     (atoms (MolecularChainNumeric isalpha_ascii ''O=C''
        [''O'' \<mapsto> 16 :: real, ''C'' \<mapsto> 12] [''='' \<mapsto> 3])) = map Some [16, 12] \<and>
   (0::real) \<notin> set [16, 12] \<and>
   map [''='' \<mapsto> 3 :: real]
     (bonds (MolecularChainNumeric isalpha_ascii ''O=C''
        [''O'' \<mapsto> 16 :: real, ''C'' \<mapsto> 12] [''='' \<mapsto> 3])) = map Some [3] \<and>
   N (MolecularChainNumeric isalpha_ascii ''O=C''
        [''O'' \<mapsto> 16 :: real, ''C'' \<mapsto> 12] [''='' \<mapsto> 3]) - 1 \<le> length [3 :: real] \<and>
   (\<exists>A. Num_build_matrix (MolecularChainNumeric isalpha_ascii ''O=C''
              [''O'' \<mapsto> 16 :: real, ''C'' \<mapsto> 12] [''='' \<mapsto> 3]) = Inr A \<and>
        16 * A ! 0 ! 1 = 12 * A ! 1 ! 0) \<and>
   map [''O'' \<mapsto> 16 :: real, ''C'' \<mapsto> 12]
     (atoms (MolecularChainNumeric isalpha_ascii ''C-C''
        [''O'' \<mapsto> 16 :: real, ''C'' \<mapsto> 12] [''-'' \<mapsto> 3])) = map Some [12, 12] \<and>
   (0::real) \<notin> set [12, 12] \<and>
   map [''-'' \<mapsto> 3 :: real]
     (bonds (MolecularChainNumeric isalpha_ascii ''C-C''
        [''O'' \<mapsto> 16 :: real, ''C'' \<mapsto> 12] [''-'' \<mapsto> 3])) = map Some [3] \<and>
   N (MolecularChainNumeric isalpha_ascii ''C-C''
        [''O'' \<mapsto> 16 :: real, ''C'' \<mapsto> 12] [''-'' \<mapsto> 3]) - 1 \<le> length [3 :: real] \<and>
   [12, 12 :: real] ! 0 = [12, 12] ! 0 \<and> [12, 12 :: real] ! 1 = [12, 12] ! 0 \<and>
   (\<exists>A. Num_build_matrix (MolecularChainNumeric isalpha_ascii ''C-C''
              [''O'' \<mapsto> 16 :: real, ''C'' \<mapsto> 12] [''-'' \<mapsto> 3]) = Inr A \<and>
        A ! 0 ! 1 = A ! 1 ! 0)"
proof -
  define c where "c = MolecularChainNumeric isalpha_ascii ''O=C''
        [''O'' \<mapsto> 16 :: real, ''C'' \<mapsto> 12] [''='' \<mapsto> 3]"
  define d where "d = MolecularChainNumeric isalpha_ascii ''C-C''
        [''O'' \<mapsto> 16 :: real, ''C'' \<mapsto> 12] [''-'' \<mapsto> 3]"
  have c1: "map [''O'' \<mapsto> 16 :: real, ''C'' \<mapsto> 12] (atoms c) = map Some [16, 12]"
    and c3: "map [''='' \<mapsto> 3 :: real] (bonds c) = map Some [3]"
    and cn: "N c = 2"
    by (simp_all add: c_def MolecularChainNumeric_Sym chain_fields isalpha_ascii_def)
  have c2: "(0::real) \<notin> set [16, 12]" by simp
  have c4: "N c - 1 \<le> length [3 :: real]" by (simp add: cn)
  have d1: "map [''O'' \<mapsto> 16 :: real, ''C'' \<mapsto> 12] (atoms d) = map Some [12, 12]"
    and d3: "map [''-'' \<mapsto> 3 :: real] (bonds d) = map Some [3]"
    and dn: "N d = 2"
    by (simp_all add: d_def MolecularChainNumeric_Sym chain_fields isalpha_ascii_def)
  have d2: "(0::real) \<notin> set [12, 12]" by simp
  have d4: "N d - 1 \<le> length [3 :: real]" by (simp add: dn)
  from C3_mass_weighted_symmetry [OF c_def c1 c2 c3 c4]
  obtain A where A: "Num_build_matrix c = Inr A"
    and wA: "\<forall>i<N c. \<forall>j<N c. [16, 12] ! i * A ! i ! j = [16, 12] ! j * A ! j ! i"
    by blast
  from wA [rule_format, of 0 1] have eA: "16 * A ! 0 ! 1 = 12 * A ! 1 ! 0"
    by (simp add: cn)
  from C3_mass_weighted_symmetry [OF d_def d1 d2 d3 d4]
  obtain B where B: "Num_build_matrix d = Inr B"
    and sB: "(\<forall>i<N d. [12, 12 :: real] ! i = [12, 12] ! 0) \<longrightarrow>
               (\<forall>i<N d. \<forall>j<N d. B ! i ! j = B ! j ! i)"
    by blast
  have "\<forall>i<N d. [12, 12 :: real] ! i = [12, 12] ! 0"
    by (simp add: dn less_Suc_eq numeral_2_eq_2)
  with sB have "\<forall>i<N d. \<forall>j<N d. B ! i ! j = B ! j ! i" by blast
  from this [rule_format, of 0 1] have eB: "B ! 0 ! 1 = B ! 1 ! 0"
    by (simp add: dn)
  have ex1: "\<exists>A. Num_build_matrix c = Inr A \<and> 16 * A ! 0 ! 1 = 12 * A ! 1 ! 0"
    using A eA by blast
  have ex2: "\<exists>A. Num_build_matrix d = Inr A \<and> A ! 0 ! 1 = A ! 1 ! 0"
    using B eB by blast
  show ?thesis
    using c1 c2 c3 c4 d1 d2 d3 d4 ex1 ex2
    unfolding c_def d_def by simp
qed

text \<open>
  Claim C4. For every structure string, \<^verbatim>\<open>_parse_structure\<close> (of either class) scans
  the positions from left to right: an alphabetic character is appended as a new
  atom; if the next position exists and holds a key of \<open>spring_dict\<close>, that
  character is appended as the bond following the atom and the scan advances two
  positions, otherwise one; a non-alphabetic character that was not consumed as a
  bond is skipped without effect. The index loop of the source computes exactly
  the scan so described, \<open>scan_spec\<close>.
\<close>

theorem C4_parse_structure_scans_left_to_right:
  "Sym_parse_structure isalpha sd s = scan_spec isalpha sd s \<and>
   Num_parse_structure isalpha sd s = scan_spec isalpha sd s"
  by (simp add: Sym_parse_structure_def Num_parse_structure_def Num_parse_loop_Sym
        Sym_parse_loop_scan)

text \<open>
  Claim C5. Parsing \<open>O=C=O\<close> with masses \<open>{O: m, C: M}\<close> and springs \<open>{=: k}\<close>
  yields the atoms \<open>[O, C, O]\<close> and the bonds \<open>[=, =]\<close>, and the roots of the
  characteristic polynomial of the resulting 3-by-3 matrix are exactly
  \<open>0\<close>, \<open>k/m\<close> and \<open>k/m * (1 + 2m/M)\<close>. The symbols \<open>m\<close> and \<open>M\<close> stand for
  nonzero elements of any field.
\<close>

theorem C5_CO2_eigenvalues:
  fixes m M k :: "'a::field"
  assumes "m \<noteq> 0" "M \<noteq> 0"
  shows "atoms (SymbolicMolecularChain isalpha_ascii ''O=C=O''
            [''O'' \<mapsto> m, ''C'' \<mapsto> M] [''='' \<mapsto> k]) = [''O'', ''C'', ''O''] \<and>
         bonds (SymbolicMolecularChain isalpha_ascii ''O=C=O''
            [''O'' \<mapsto> m, ''C'' \<mapsto> M] [''='' \<mapsto> k]) = [''='', ''=''] \<and>
         (\<exists>A. Sym_build_matrix (SymbolicMolecularChain isalpha_ascii ''O=C=O''
                  [''O'' \<mapsto> m, ''C'' \<mapsto> M] [''='' \<mapsto> k]) = Inr A \<and>
              length A = 3 \<and> length (A ! 0) = 3 \<and> length (A ! 1) = 3 \<and> length (A ! 2) = 3 \<and>
              eigenvalues A = {0, k / m, k / m * (1 + 2 * m / M)})"
proof -
  let ?A = "[[k / m, - k / m, 0], [- k / M, k / M + k / M, - k / M], [0, - k / m, k / m]]"
  have r: "k / m * (1 + 2 * m / M) = k / m + 2 * k / M"
    using assms by (simp add: field_simps)
  have "eigenvalues ?A = {lam. (k / m - lam) * lam * (lam - (k / m + 2 * k / M)) = 0}"
    by (simp only: eigenvalues_def CO2_characteristic_polynomial [OF assms])
  also have "\<dots> = {0, k / m, k / m + 2 * k / M}"
    by auto
  finally have ev: "eigenvalues ?A = {0, k / m, k / m * (1 + 2 * m / M)}"
    by (simp only: r)
  have "length ?A = 3 \<and> length (?A ! 0) = 3 \<and> length (?A ! 1) = 3 \<and> length (?A ! 2) = 3"
    by simp
  with ev CO2_matrix [OF assms, of k] show ?thesis
    by (intro conjI exI [of _ ?A]) (simp_all add: chain_fields isalpha_ascii_def)
qed

theorem C5_CO2_eigenvalues_witness:
  "(16 :: rat) \<noteq> 0 \<and> (12 :: rat) \<noteq> 0 \<and>
   atoms (SymbolicMolecularChain isalpha_ascii ''O=C=O''
            [''O'' \<mapsto> 16 :: rat, ''C'' \<mapsto> 12] [''='' \<mapsto> 3]) = [''O'', ''C'', ''O''] \<and>
   bonds (SymbolicMolecularChain isalpha_ascii ''O=C=O''
            [''O'' \<mapsto> 16 :: rat, ''C'' \<mapsto> 12] [''='' \<mapsto> 3]) = [''='', ''=''] \<and>
   (\<exists>A. Sym_build_matrix (SymbolicMolecularChain isalpha_ascii ''O=C=O''
            [''O'' \<mapsto> 16 :: rat, ''C'' \<mapsto> 12] [''='' \<mapsto> 3]) = Inr A \<and>
        length A = 3 \<and> eigenvalues A = {0, 3 / 16, 11 / 16})"
proof -
  have h: "(16 :: rat) \<noteq> 0" "(12 :: rat) \<noteq> 0"
    by simp_all
  have "(3::rat) / 16 * (1 + 2 * 16 / 12) = 11 / 16"
    by simp
  with C5_CO2_eigenvalues [OF h, of 3] h show ?thesis
    by auto
qed

text \<open>
  Claim C6. For every structure string that is valid per the external interface
  (alphabetic atom characters with exactly one recognized bond character between
  consecutive atoms, first and last character atoms, hence non-empty), the two
  outputs of the parser satisfy \<open>len(bonds) = len(atoms) - 1\<close>.
\<close>

theorem C6_valid_structure_bond_count:
  assumes "valid_structure isalpha sd s"
  shows "int (length (bonds (SymbolicMolecularChain isalpha s md sd))) =
           int (length (atoms (SymbolicMolecularChain isalpha s md sd))) - 1 \<and>
         int (length (bonds (MolecularChainNumeric isalpha s md sd))) =
           int (length (atoms (MolecularChainNumeric isalpha s md sd))) - 1 \<and>
         int (length (snd (Sym_parse_structure isalpha sd s))) =
           int (length (fst (Sym_parse_structure isalpha sd s))) - 1 \<and>
         int (length (snd (Num_parse_structure isalpha sd s))) =
           int (length (fst (Num_parse_structure isalpha sd s))) - 1"
  using scan_valid [OF assms]
  by (simp add: chain_fields chain_fields_Num Sym_parse_structure_scan Num_parse_structure_scan)

theorem C6_valid_structure_bond_count_witness:
  "valid_structure isalpha_ascii [''='' \<mapsto> 3 :: rat, ''-'' \<mapsto> 2] ''O=C-C-C=O'' \<and>
   length (bonds (SymbolicMolecularChain isalpha_ascii ''O=C-C-C=O''
      [''O'' \<mapsto> 16, ''C'' \<mapsto> 12] [''='' \<mapsto> 3 :: rat, ''-'' \<mapsto> 2])) = 4 \<and>
   length (atoms (SymbolicMolecularChain isalpha_ascii ''O=C-C-C=O''
      [''O'' \<mapsto> 16, ''C'' \<mapsto> 12] [''='' \<mapsto> 3 :: rat, ''-'' \<mapsto> 2])) = 5 \<and>
   int (length (bonds (SymbolicMolecularChain isalpha_ascii ''O=C-C-C=O''
      [''O'' \<mapsto> 16, ''C'' \<mapsto> 12] [''='' \<mapsto> 3 :: rat, ''-'' \<mapsto> 2]))) =
   int (length (atoms (SymbolicMolecularChain isalpha_ascii ''O=C-C-C=O''
      [''O'' \<mapsto> 16, ''C'' \<mapsto> 12] [''='' \<mapsto> 3 :: rat, ''-'' \<mapsto> 2]))) - 1"
proof -
  have v: "valid_structure isalpha_ascii [''='' \<mapsto> 3 :: rat, ''-'' \<mapsto> 2] ''O=C-C-C=O''"
    by (simp add: isalpha_ascii_def)
  have "length (atoms (SymbolicMolecularChain isalpha_ascii ''O=C-C-C=O''
      [''O'' \<mapsto> 16, ''C'' \<mapsto> 12] [''='' \<mapsto> 3 :: rat, ''-'' \<mapsto> 2])) = 5"
    by (simp add: chain_fields isalpha_ascii_def)
  with C6_valid_structure_bond_count [OF v, of "[''O'' \<mapsto> 16, ''C'' \<mapsto> 12]"] v
  show ?thesis by simp
qed




text \<open>
  Claim C8 does not hold as stated: no structure string makes the constructor raise.
  The empty string gives an empty chain and the 0-by-0 matrix; a leading bond
  symbol is skipped; a trailing bond symbol is recorded as a bond.
\<close>

theorem C8_counterexample:
  "atoms (SymbolicMolecularChain isalpha_ascii ''''
      [''O'' \<mapsto> 16 :: rat, ''C'' \<mapsto> 12] [''='' \<mapsto> 3]) = [] \<and>
   bonds (SymbolicMolecularChain isalpha_ascii ''''
      [''O'' \<mapsto> 16 :: rat, ''C'' \<mapsto> 12] [''='' \<mapsto> 3]) = [] \<and>
   Sym_build_matrix (SymbolicMolecularChain isalpha_ascii ''''
      [''O'' \<mapsto> 16 :: rat, ''C'' \<mapsto> 12] [''='' \<mapsto> 3]) = Inr [] \<and>
   atoms (SymbolicMolecularChain isalpha_ascii ''=O''
      [''O'' \<mapsto> 16 :: rat, ''C'' \<mapsto> 12] [''='' \<mapsto> 3]) = [''O''] \<and>
   bonds (SymbolicMolecularChain isalpha_ascii ''=O''
      [''O'' \<mapsto> 16 :: rat, ''C'' \<mapsto> 12] [''='' \<mapsto> 3]) = [] \<and>
   Sym_build_matrix (SymbolicMolecularChain isalpha_ascii ''=O''
      [''O'' \<mapsto> 16 :: rat, ''C'' \<mapsto> 12] [''='' \<mapsto> 3]) = Inr [[0]] \<and>
   atoms (MolecularChainNumeric isalpha_ascii ''O=''
      [''O'' \<mapsto> 16 :: rat, ''C'' \<mapsto> 12] [''='' \<mapsto> 3]) = [''O''] \<and>
   bonds (MolecularChainNumeric isalpha_ascii ''O=''
      [''O'' \<mapsto> 16 :: rat, ''C'' \<mapsto> 12] [''='' \<mapsto> 3]) = [''=''] \<and>
   Num_build_matrix (MolecularChainNumeric isalpha_ascii ''O=''
      [''O'' \<mapsto> 16 :: rat, ''C'' \<mapsto> 12] [''='' \<mapsto> 3]) = Inr [[0]]"
  by (simp add: chain_fields chain_fields_Num isalpha_ascii_def
        Sym_build_matrix_def Num_build_matrix_def zeros_def
        Sym_build_row_def Num_build_row_def)

text \<open>
  Claim C8, as the code has it. The constructor returns a chain for every
  structure string, malformed ones included, and raises nothing: the empty string
  yields empty atom and bond lists, and \<^verbatim>\<open>build_matrix\<close> the 0-by-0 matrix; a
  leading non-alphabetic character, such as a bond symbol, is skipped, so that the
  chain is that of the rest of the string; a recognized bond symbol appended to a
  valid string is recorded as one more bond, the atoms unchanged.
\<close>

theorem C8_malformed_strings_are_parsed:
  "Sym_parse_structure isalpha sd [] = ([], []) \<and>
   Num_parse_structure isalpha sd [] = ([], []) \<and>
   Sym_build_matrix (SymbolicMolecularChain isalpha [] md sd) = Inr [] \<and>
   Num_build_matrix (MolecularChainNumeric isalpha [] md sd) = Inr [] \<and>
   (\<not> isalpha b \<longrightarrow>
      Sym_parse_structure isalpha sd (b # s) = Sym_parse_structure isalpha sd s \<and>
      Num_parse_structure isalpha sd (b # s) = Num_parse_structure isalpha sd s) \<and>
   (valid_structure isalpha sd s \<and> sd [b] \<noteq> None \<longrightarrow>
      Sym_parse_structure isalpha sd (s @ [b]) =
        (fst (Sym_parse_structure isalpha sd s), snd (Sym_parse_structure isalpha sd s) @ [[b]]) \<and>
      Num_parse_structure isalpha sd (s @ [b]) =
        (fst (Num_parse_structure isalpha sd s), snd (Num_parse_structure isalpha sd s) @ [[b]]))"
proof -
  have "Sym_build_matrix (SymbolicMolecularChain isalpha [] md sd) = Inr []"
    by (simp add: Sym_build_matrix_def chain_fields zeros_def)
  then show ?thesis
    by (simp add: Sym_parse_structure_scan Num_parse_structure_scan scan_skip scan_trailing_bond
          Num_build_matrix_Sym MolecularChainNumeric_Sym)
qed

theorem C8_malformed_strings_are_parsed_witness:
  "\<not> isalpha_ascii CHR ''='' \<and>
   Sym_parse_structure isalpha_ascii [''='' \<mapsto> 3 :: rat] ''=O=C'' =
     Sym_parse_structure isalpha_ascii [''='' \<mapsto> 3 :: rat] ''O=C'' \<and>
   valid_structure isalpha_ascii [''='' \<mapsto> 3 :: rat] ''O=C'' \<and>
   [''='' \<mapsto> 3 :: rat] ''='' \<noteq> None \<and>
   Sym_parse_structure isalpha_ascii [''='' \<mapsto> 3 :: rat] ''O=C='' =
     (fst (Sym_parse_structure isalpha_ascii [''='' \<mapsto> 3 :: rat] ''O=C''),
      snd (Sym_parse_structure isalpha_ascii [''='' \<mapsto> 3 :: rat] ''O=C'') @ [''=''])"
proof -
  have h1: "\<not> isalpha_ascii CHR ''=''"
    by (simp add: isalpha_ascii_def)
  have h2: "valid_structure isalpha_ascii [''='' \<mapsto> 3 :: rat] ''O=C''"
    by (simp add: isalpha_ascii_def)
  have h3: "[''='' \<mapsto> 3 :: rat] ''='' \<noteq> None"
    by simp
  from C8_malformed_strings_are_parsed
         [of isalpha_ascii "[''='' \<mapsto> 3 :: rat]" _ "CHR ''=''" "''O=C''"] h1 h2 h3
  show ?thesis
    by simp
qed

text \<open>
  Claim C9. The two classes agree on the atoms, the bonds and the matrix for every
  input, but the eigenvalues of the numeric solver do not match the roots of the
  symbolic solver's characteristic polynomial. At the chain \<open>O=C\<close> with masses 1
  and 2 and spring constant 1 the matrix has the characteristic roots \<open>0\<close> and
  \<open>3/2\<close>. The numeric solver hands this matrix, which is not symmetric, to
  \<^verbatim>\<open>np.linalg.eigh\<close>; the symmetric matrix that \<^verbatim>\<open>eigh\<close> decomposes has the
  eigenvalues \<open>(3 - sqrt 5)/4\<close> and \<open>(3 + sqrt 5)/4\<close>, about 0.19 and 1.31, and
  neither root of the symbolic solver is among them.
\<close>

theorem C9_numeric_solver_differs:
  "MolecularChainNumeric isalpha s md sd = SymbolicMolecularChain isalpha s md sd \<and>
   Num_build_matrix self = Sym_build_matrix self \<and>
   Sym_build_matrix (SymbolicMolecularChain isalpha_ascii ''O=C''
       [''O'' \<mapsto> 1 :: real, ''C'' \<mapsto> 2] [''='' \<mapsto> 1]) = Inr [[1, - 1], [- 1 / 2, 1 / 2]] \<and>
   Num_build_matrix (MolecularChainNumeric isalpha_ascii ''O=C''
       [''O'' \<mapsto> 1 :: real, ''C'' \<mapsto> 2] [''='' \<mapsto> 1]) = Inr [[1, - 1], [- 1 / 2, 1 / 2]] \<and>
   eigenvalues [[1, - 1], [- 1 / 2, 1 / 2 :: real]] = {0, 3 / 2} \<and>
   eigh_operand [[1, - 1], [- 1 / 2, 1 / 2 :: real]] = [[1, - 1 / 2], [- 1 / 2, 1 / 2]] \<and>
   eigenvalues (eigh_operand [[1, - 1], [- 1 / 2, 1 / 2 :: real]]) =
     {(3 - sqrt 5) / 4, (3 + sqrt 5) / 4} \<and>
   0 \<notin> eigenvalues (eigh_operand [[1, - 1], [- 1 / 2, 1 / 2 :: real]]) \<and>
   3 / 2 \<notin> eigenvalues (eigh_operand [[1, - 1], [- 1 / 2, 1 / 2 :: real]]) \<and>
   1 / 8 < (3 - sqrt 5) / 4 \<and> (3 + sqrt 5) / 4 < 3 / 2 - 1 / 8"
proof -
  have lo: "2 < sqrt 5"
    by (rule real_less_rsqrt) simp
  have hi: "sqrt 5 < 5 / 2"
    by (rule real_less_lsqrt) (simp_all add: power2_eq_square)
  have n0: "(3 - sqrt 5) / 4 \<noteq> 0" "(3 + sqrt 5) / 4 \<noteq> 0"
    "(3 - sqrt 5) / 4 \<noteq> 3 / 2" "(3 + sqrt 5) / 4 \<noteq> 3 / 2"
    using lo hi by simp_all
  have b: "1 / 8 < (3 - sqrt 5) / 4" "(3 + sqrt 5) / 4 < 3 / 2 - 1 / 8"
    using lo hi by simp_all
  show ?thesis
    using n0 b
    by (simp only: OC_matrix Num_build_matrix_Sym MolecularChainNumeric_Sym OC_symbolic_roots
          OC_eigh_operand OC_eigh_roots) auto
qed

text \<open>
  Claim C10 does not hold as stated: an alphabetic character that is a key of
  \<open>spring_dict\<close> and follows an atom is consumed as a bond, not appended as an atom.
\<close>

theorem C10_counterexample:
  "isalpha_ascii CHR ''x'' \<and>
   atoms (SymbolicMolecularChain isalpha_ascii ''OxC''
      [''O'' \<mapsto> 16 :: rat, ''C'' \<mapsto> 12] [''x'' \<mapsto> 3]) = [''O'', ''C''] \<and>
   bonds (SymbolicMolecularChain isalpha_ascii ''OxC''
      [''O'' \<mapsto> 16 :: rat, ''C'' \<mapsto> 12] [''x'' \<mapsto> 3]) = [''x''] \<and>
   atoms (MolecularChainNumeric isalpha_ascii ''OxC''
      [''O'' \<mapsto> 16 :: rat, ''C'' \<mapsto> 12] [''x'' \<mapsto> 3]) = [''O'', ''C'']"
  by (simp add: chain_fields chain_fields_Num isalpha_ascii_def)

text \<open>
  Claim C10, as the code has it. When no key of \<open>spring_dict\<close> is an alphabetic character,
  the parser appends each alphabetic character of the structure string, uppercase
  or lowercase, as its own one-character atom, in order, so that a two-character
  element symbol such as \<open>Cl\<close> becomes two atoms; and the atoms and bonds parsed
  do not depend on the mass mapping.
\<close>

theorem C10_each_letter_is_an_atom:
  "((\<forall>ch. isalpha ch \<longrightarrow> sd [ch] = None) \<longrightarrow>
      atoms (SymbolicMolecularChain isalpha s md sd) = map (\<lambda>ch. [ch]) (filter isalpha s) \<and>
      atoms (MolecularChainNumeric isalpha s md sd) = map (\<lambda>ch. [ch]) (filter isalpha s)) \<and>
   atoms (SymbolicMolecularChain isalpha s md sd) = atoms (SymbolicMolecularChain isalpha s md' sd) \<and>
   bonds (SymbolicMolecularChain isalpha s md sd) = bonds (SymbolicMolecularChain isalpha s md' sd) \<and>
   atoms (MolecularChainNumeric isalpha s md sd) = atoms (MolecularChainNumeric isalpha s md' sd) \<and>
   bonds (MolecularChainNumeric isalpha s md sd) = bonds (MolecularChainNumeric isalpha s md' sd)"
  by (simp add: chain_fields chain_fields_Num scan_no_alpha_bond)

theorem C10_each_letter_is_an_atom_witness:
  "\<not> (\<exists>ch. isalpha_ascii ch \<and> [''-'' \<mapsto> 3 :: rat] [ch] \<noteq> None) \<and>
   atoms (SymbolicMolecularChain isalpha_ascii ''Cl-H''
      [''H'' \<mapsto> 1 :: rat, ''Cl'' \<mapsto> 35] [''-'' \<mapsto> 3]) = [''C'', ''l'', ''H''] \<and>
   atoms (MolecularChainNumeric isalpha_ascii ''Cl-H''
      [''H'' \<mapsto> 1 :: rat, ''Cl'' \<mapsto> 35] [''-'' \<mapsto> 3]) = [''C'', ''l'', ''H'']"
proof -
  have h: "\<forall>ch. isalpha_ascii ch \<longrightarrow> [''-'' \<mapsto> 3 :: rat] [ch] = None"
    by (auto simp: isalpha_ascii_def)
  have f: "map (\<lambda>ch. [ch]) (filter isalpha_ascii ''Cl-H'') = [''C'', ''l'', ''H'']"
    by (simp add: isalpha_ascii_def)
  from C10_each_letter_is_an_atom
         [of isalpha_ascii "[''-'' \<mapsto> 3 :: rat]" "''Cl-H''" "[''H'' \<mapsto> 1 :: rat, ''Cl'' \<mapsto> 35]"] h f
  show ?thesis
    by auto
qed

end
